theory Spec2Isabelle
  imports Main "HOL-Library.AList"
begin

section \<open>Python values used by the program\<close>

text \<open>
  A Python \<open>str\<close> is a sequence of code points. It is modelled as a \<open>string\<close>, each
  \<open>char\<close> standing for the code point of the same number, so the model covers the strings
  over U+0000 .. U+00FF and \<open>length\<close> counts code points as Python's \<open>len\<close> does. A
  command-line option that click passes on is either a \<open>str\<close> or \<open>None\<close>: a
  \<open>string option\<close>.
\<close>

text \<open>
  \<open>str.isdigit\<close>: the characters whose Unicode numeric type is Decimal or Digit. Up to
  U+00FF these are the ten ASCII digits and the superscripts U+00B2, U+00B3 and U+00B9.
\<close>

definition isdigit :: "char \<Rightarrow> bool" where
  "isdigit c =
     (let n = (of_char c :: nat)
      in (48 \<le> n \<and> n \<le> 57) \<or> n = 178 \<or> n = 179 \<or> n = 185)"

text \<open>
  \<open>str.lower\<close>: up to U+00FF the upper-case letters are A .. Z and U+00C0 .. U+00DE
  without the multiplication sign U+00D7; each has its lower-case letter 32 places on.
\<close>

definition lower_char :: "char \<Rightarrow> char" where
  "lower_char c =
     (let n = (of_char c :: nat)
      in if (65 \<le> n \<and> n \<le> 90) \<or> (192 \<le> n \<and> n \<le> 222 \<and> n \<noteq> 215)
         then char_of (n + 32) else c)"

definition lower :: "string \<Rightarrow> string" where
  "lower s = map lower_char s"

text \<open>\<open>sep.join(parts)\<close> for a list of strings.\<close>

fun join :: "string \<Rightarrow> string list \<Rightarrow> string" where
  "join sep [] = []"
| "join sep [x] = x"
| "join sep (x # y # ys) = x @ sep @ join sep (y # ys)"

text \<open>\<open>s.replace(old, new)\<close> where \<open>old\<close> is a single character, as at both call sites.\<close>

definition replace :: "char \<Rightarrow> string \<Rightarrow> string \<Rightarrow> string" where
  "replace old new s = concat (map (\<lambda>c. if c = old then new else [c]) s)"

text \<open>
  The slice \<open>s[i:j]\<close>: a negative bound counts from the end, both bounds are clipped to
  the sequence, and an empty range gives the empty sequence.
\<close>

definition slice_bound :: "int \<Rightarrow> nat \<Rightarrow> nat" where
  "slice_bound i n = (if i < 0 then nat (max 0 (i + int n)) else min (nat i) n)"

definition slice :: "int \<Rightarrow> int \<Rightarrow> 'a list \<Rightarrow> 'a list" where
  "slice i j xs =
     (let lo = slice_bound i (length xs); hi = slice_bound j (length xs)
      in take (hi - lo) (drop lo xs))"

text \<open>
  \<open>shlex.quote\<close> of the standard library: the empty string becomes two single quotes, a
  string of safe characters only (ASCII letters, digits, underscore and
  \<open>@%+=:,./-\<close>) is returned as it is, and any other string is put between single quotes
  with each single quote inside replaced by \<open>'"'"'\<close>.
\<close>

definition shlex_safe :: "char \<Rightarrow> bool" where
  "shlex_safe c =
     (c \<in> set ''abcdefghijklmnopqrstuvwxyzABCDEFGHIJKLMNOPQRSTUVWXYZ0123456789_@%+=:,./-'')"

definition shlex_quote :: "string \<Rightarrow> string" where
  "shlex_quote s =
     (if s = [] then [CHR 0x27, CHR 0x27]
      else if list_all shlex_safe s then s
      else [CHR 0x27]
           @ replace (CHR 0x27) [CHR 0x27, CHR 0x22, CHR 0x27, CHR 0x22, CHR 0x27] s
           @ [CHR 0x27])"

section \<open>Exceptions, the environment and what the program does to it\<close>

text \<open>
  \<open>Exception\<close> carries the message the program raises it with. \<open>KeyError\<close> is raised by
  a dictionary lookup and carries the key, \<open>TypeError\<close> by adding a list to a string.
  \<open>External\<close> is an exception raised by a collaborator (the completion client,
  \<open>input\<close>), with its text.
\<close>

datatype exn = Exception string | KeyError string | TypeError | External string

text \<open>
  A JSON text field as \<open>json.load\<close> returns it: a string, or an array of strings.
\<close>

datatype json_text = JStr string | JList "string list"

record json_mode =
  json_name :: string
  json_description :: string
  json_modifier :: string

record json_config =
  json_prefix :: json_text
  json_suffix :: json_text
  json_modes :: "json_mode list"
  json_default_mode :: string

text \<open>
  The environment of one run. The three files are \<open>None\<close> when they do not exist;
  \<open>prompts.json\<close> is given parsed. \<open>chatbot_ask token prompt\<close> is the list of messages
  the completion client yields, or the exception it raises; \<open>input_line\<close> is the
  operator's answer, or the exception \<open>input\<close> raises; \<open>subprocess_run command check\<close> is
  the text of the exception \<open>subprocess.run(command, shell=True, check=check)\<close> raises, or
  \<open>None\<close> when it returns.
\<close>

record env =
  prompts_json :: "json_config option"
  token_file :: "string option"
  message_file :: "string option"
  chatbot_ask :: "string \<Rightarrow> string \<Rightarrow> exn + string list"
  input_line :: "exn + string"
  subprocess_run :: "string \<Rightarrow> bool \<Rightarrow> string option"

text \<open>
  What a run does, in order: a line printed, a line printed that ends with \<open>str(e)\<close> of
  an exception, the prompt of \<open>input\<close>, and a shell command handed to
  \<open>subprocess.run\<close>, which is the dispatch of the message.
\<close>

datatype event = Print string | PrintExn string exn | Input string | Run string

fun is_dispatch :: "event \<Rightarrow> bool" where
  "is_dispatch (Run c) = True"
| "is_dispatch e = False"

section \<open>src/src/__main__.py\<close>

record ResponseMode =
  NAME :: string
  DESCRIPTION :: string
  PROMPT_MODIFICATION :: string

record PromptData =
  PREFIX :: json_text
  SUFFIX :: json_text
  MODES :: "ResponseMode list"
  DEFAULT_MODE :: string

definition show_modes :: "PromptData \<Rightarrow> event list" where
  "show_modes pd =
     Print ''AVAILABLE MODES:''
     # map (\<lambda>mode. Print ([CHR 0x09] @ NAME mode @ '': '' @ DESCRIPTION mode)) (MODES pd)"

record WingmanGPT =
  phone_number :: string
  token :: string
  message :: string
  wants_to_confirm :: bool
  prompt_data :: PromptData
  mode_modification :: string

text \<open>
  The fallback of \<open>__get_token\<close>: the content of the file \<open>token\<close> when it exists and
  is not empty, the exception otherwise.
\<close>

definition token_fallback :: "env \<Rightarrow> exn + string" where
  "token_fallback E =
     (case token_file E of
        Some tok \<Rightarrow>
          if tok \<noteq> [] then Inr tok
          else Inl (Exception ''No token provided or found in token file'')
      | None \<Rightarrow> Inl (Exception ''No token provided or found in token file''))"

definition get_token :: "env \<Rightarrow> string option \<Rightarrow> exn + string" where
  "get_token E tok_arg =
     (case tok_arg of
        Some t \<Rightarrow> if t \<noteq> [] then Inr t else token_fallback E
      | None \<Rightarrow> token_fallback E)"

text \<open>The loop over the characters of the number; it raises at the first non-digit.\<close>

fun check_digits :: "string \<Rightarrow> exn + unit" where
  "check_digits [] = Inr ()"
| "check_digits (c # cs) =
     (if \<not> isdigit c then Inl (Exception ''Invalid phone number'') else check_digits cs)"

definition get_phone_number :: "string option \<Rightarrow> exn + string" where
  "get_phone_number number =
     (case number of
        None \<Rightarrow> Inl (Exception ''Invalid phone number'')
      | Some s \<Rightarrow>
          if length s \<noteq> 10 then Inl (Exception ''Invalid phone number'')
          else (case check_digits s of Inl e \<Rightarrow> Inl e | Inr u \<Rightarrow> Inr s))"

text \<open>
  The fallback of \<open>__get_message\<close>: the content of \<open>message.txt\<close> when the file exists
  and is not empty, the exception otherwise.
\<close>

definition message_fallback :: "env \<Rightarrow> exn + string" where
  "message_fallback E =
     (case message_file E of
        Some msg \<Rightarrow>
          if msg \<noteq> [] then Inr msg
          else Inl (Exception ''No message provided or found in message.txt'')
      | None \<Rightarrow> Inl (Exception ''No message provided or found in message.txt''))"

definition get_message :: "env \<Rightarrow> string option \<Rightarrow> exn + string" where
  "get_message E msg_arg =
     (case msg_arg of
        Some m \<Rightarrow> if m \<noteq> [] then Inr m else message_fallback E
      | None \<Rightarrow> message_fallback E)"

text \<open>
  A Python dictionary keeps its keys in the order of first insertion, and storing under a
  key that is there replaces the value in place: \<open>AList.update\<close> on an association list.
  \<open>d[k]\<close> raises \<open>KeyError\<close> when the key is missing.
\<close>

definition available_modes :: "ResponseMode list \<Rightarrow> (string \<times> string) list" where
  "available_modes ms =
     foldl (\<lambda>d response_mode.
              AList.update (NAME response_mode) (PROMPT_MODIFICATION response_mode) d) [] ms"

definition getitem :: "(string \<times> string) list \<Rightarrow> string \<Rightarrow> exn + string" where
  "getitem d k = (case map_of d k of None \<Rightarrow> Inl (KeyError k) | Some v \<Rightarrow> Inr v)"

definition keys :: "(string \<times> string) list \<Rightarrow> string list" where
  "keys d = map fst d"

text \<open>
  The message of the exception for an unknown mode. The string literal is continued over
  two source lines with a backslash, so the 28 spaces that indent the second line are
  part of the message.
\<close>

definition invalid_mode_message :: "string \<Rightarrow> string list \<Rightarrow> string" where
  "invalid_mode_message mode_str names =
     ''Invalid mode: '' @ mode_str @ ''\<newline> Available modes: '' @ replicate 28 (CHR '' '')
     @ join '', '' names"

definition get_mode_modification :: "PromptData \<Rightarrow> string option \<Rightarrow> exn + string" where
  "get_mode_modification pd mode_arg =
     (let d = available_modes (MODES pd)
      in case mode_arg of
           None \<Rightarrow> getitem d (DEFAULT_MODE pd)
         | Some mode_str \<Rightarrow>
             if mode_str = [] then getitem d (DEFAULT_MODE pd)
             else if mode_str \<notin> set (keys d)
               then Inl (Exception (invalid_mode_message mode_str (keys d)))
             else getitem d mode_str)"

text \<open>
  \<open>" ".join(x)\<close> takes any iterable of strings: for a list it joins the elements, for a
  string it joins its characters.
\<close>

fun join_text :: "json_text \<Rightarrow> string" where
  "join_text (JList parts) = join '' '' parts"
| "join_text (JStr s) = join '' '' (map (\<lambda>c. [c]) s)"

definition get_prompt :: "WingmanGPT \<Rightarrow> string" where
  \<open>get_prompt self =
     join_text (PREFIX (prompt_data self))
     @ '' Here is the message: "'' @ message self @ ''".''
     @ '' Here is how I want you to modify the message: ''
     @ ''"'' @ mode_modification self @ ''".''
     @ join_text (SUFFIX (prompt_data self))\<close>

text \<open>
  \<open>response\<close> starts empty and is overwritten by each message the client yields, so it
  ends as the last one; then the slice \<open>[1:-1]\<close>.
\<close>

definition get_response :: "env \<Rightarrow> WingmanGPT \<Rightarrow> exn + string" where
  "get_response E self =
     (let PROMPT = get_prompt self;
          tok = replace (CHR ''\<newline>'') [] (token self)
      in case chatbot_ask E tok PROMPT of
           Inl e \<Rightarrow> Inl e
         | Inr datas \<Rightarrow> Inr (slice 1 (- 1) (foldl (\<lambda>response data. data) [] datas)))"

definition prepared_response :: "string \<Rightarrow> string" where
  \<open>prepared_response response = ''"'' @ slice 1 (- 1) (shlex_quote response) @ ''"''\<close>

definition send_command :: "WingmanGPT \<Rightarrow> string \<Rightarrow> string" where
  \<open>send_command self response =
     ''osascript -e 'tell application "Messages" to send ''
     @ prepared_response response @ '' to buddy "'' @ phone_number self @ [CHR 0x22, CHR 0x27]\<close>

text \<open>\<open>__send_message\<close>: what it does, and the exception it raises if any.\<close>

definition send_message :: "env \<Rightarrow> WingmanGPT \<Rightarrow> string \<Rightarrow> event list \<times> exn option" where
  "send_message E self response =
     (let command = send_command self response
      in ([Run command],
          case subprocess_run E command True of
            None \<Rightarrow> None
          | Some e \<Rightarrow> Some (Exception (''Failed to send message: \<newline>\<newline>'' @ e))))"

definition send_and_report :: "env \<Rightarrow> WingmanGPT \<Rightarrow> string \<Rightarrow> event list" where
  "send_and_report E self response =
     (case send_message E self response of
        (evs, None) \<Rightarrow> evs @ [Print ''Message Sent.'']
      | (evs, Some e) \<Rightarrow> evs @ [PrintExn ''Failed to send message. \<newline>\<newline>'' e])"

definition execute :: "env \<Rightarrow> WingmanGPT \<Rightarrow> event list" where
  "execute E self =
     (case get_response E self of
        Inl e \<Rightarrow> [PrintExn [] e, Print ''Failed to get response from ChatGPT API'']
      | Inr response \<Rightarrow>
          if wants_to_confirm self then
            Print (''********\<newline>Message: '' @ response @ ''\<newline>********'')
            # Input ''Send message? (y/n): ''
            # (case input_line E of
                 Inl e \<Rightarrow> [PrintExn ''Failed to send message. \<newline>\<newline>'' e]
               | Inr confirm \<Rightarrow>
                   if lower confirm \<noteq> ''y'' then [Print ''Message not sent.'']
                   else send_and_report E self response)
          else send_and_report E self response)"

definition get_prompt_data :: "env \<Rightarrow> exn + PromptData" where
  "get_prompt_data E =
     (case prompts_json E of
        None \<Rightarrow> Inl (Exception ''prompts.json does not exist'')
      | Some data \<Rightarrow>
          Inr \<lparr>PREFIX = json_prefix data, SUFFIX = json_suffix data,
               MODES = map (\<lambda>mode. \<lparr>NAME = json_name mode,
                                      DESCRIPTION = json_description mode,
                                      PROMPT_MODIFICATION = json_modifier mode\<rparr>)
                           (json_modes data),
               DEFAULT_MODE = json_default_mode data\<rparr>)"

text \<open>\<open>WingmanGPT.__init__\<close>: the checks in the order of the source.\<close>

definition init ::
  "env \<Rightarrow> string option \<Rightarrow> bool \<Rightarrow> string option \<Rightarrow> string option \<Rightarrow> string option
     \<Rightarrow> PromptData \<Rightarrow> exn + WingmanGPT" where
  "init E number noconfirm tok_arg msg_arg mode pd =
     (case get_phone_number number of Inl e \<Rightarrow> Inl e | Inr pn \<Rightarrow>
     (case get_token E tok_arg of Inl e \<Rightarrow> Inl e | Inr tok \<Rightarrow>
     (case get_message E msg_arg of Inl e \<Rightarrow> Inl e | Inr msg \<Rightarrow>
     (case get_mode_modification pd mode of Inl e \<Rightarrow> Inl e | Inr mm \<Rightarrow>
        Inr \<lparr>phone_number = pn, token = tok, message = msg,
             wants_to_confirm = (\<not> noconfirm), prompt_data = pd,
             mode_modification = mm\<rparr>))))"

record args =
  arg_number :: "string option"
  arg_noconfirm :: bool
  arg_token :: "string option"
  arg_message :: "string option"
  arg_mode :: "string option"
  arg_show_modes :: bool

definition main :: "env \<Rightarrow> args \<Rightarrow> event list" where
  "main E a =
     (case get_prompt_data E of
        Inl e \<Rightarrow> [PrintExn ''Error occurred: '' e]
      | Inr pd \<Rightarrow>
          if arg_show_modes a then show_modes pd
          else if arg_number a = None then [Print ''Phone number is required.'']
          else (case init E (arg_number a) (arg_noconfirm a) (arg_token a) (arg_message a)
                       (arg_mode a) pd of
                  Inl e \<Rightarrow> [PrintExn ''Error occurred: '' e]
                | Inr tgpt \<Rightarrow> execute E tgpt))"

section \<open>src/WingmanGPT/__main__.py\<close>

text \<open>
  The other copy of the program. Its \<open>__get_token\<close> and \<open>__get_message\<close> differ from the
  ones above only in how the files are opened, its \<open>__get_response\<close> slices the response
  in the same way, and its \<open>__send_message\<close> prepares the response with the same
  expression: \<open>get_token\<close>, \<open>get_message\<close>, \<open>slice\<close> and \<open>prepared_response\<close> stand for
  both. What differs is written out, with the suffix \<open>_W\<close>.
\<close>

record ResponseMode_W =
  NAME_W :: string
  PROMPT_MODIFICATION_W :: string

record PromptData_W =
  PREFIX_W :: json_text
  SUFFIX_W :: json_text
  MODES_W :: "ResponseMode_W list"
  DEFAULT_MODE_W :: string

record WingmanGPT_W =
  phone_number_W :: string
  token_W :: string
  message_W :: string
  wants_to_confirm_W :: bool
  prompt_data_W :: PromptData_W
  mode_modification_W :: string

text \<open>
  The loader passes three arguments to \<open>PromptData\<close>, so \<open>DEFAULT_MODE\<close> keeps the
  default of the dataclass.
\<close>

definition get_prompt_data_W :: "env \<Rightarrow> exn + PromptData_W" where
  "get_prompt_data_W E =
     (case prompts_json E of
        None \<Rightarrow> Inl (Exception ''prompts.json does not exist'')
      | Some data \<Rightarrow>
          Inr \<lparr>PREFIX_W = json_prefix data, SUFFIX_W = json_suffix data,
               MODES_W = map (\<lambda>mode. \<lparr>NAME_W = json_name mode,
                                        PROMPT_MODIFICATION_W = json_modifier mode\<rparr>)
                             (json_modes data),
               DEFAULT_MODE_W = ''ROMANTIC''\<rparr>)"

fun check_digits_W :: "string \<Rightarrow> exn + unit" where
  "check_digits_W [] = Inr ()"
| "check_digits_W (c # cs) =
     (if \<not> isdigit c then Inl (Exception ''Invalid phone number'') else check_digits_W cs)"

definition get_phone_number_W :: "string option \<Rightarrow> exn + string" where
  "get_phone_number_W number =
     (case number of
        None \<Rightarrow> Inl (Exception ''Invalid phone number'')
      | Some s \<Rightarrow>
          if length s \<noteq> 10 then Inl (Exception ''Invalid phone number'')
          else (case check_digits_W s of Inl e \<Rightarrow> Inl e | Inr u \<Rightarrow> Inr s))"

definition available_modes_W :: "ResponseMode_W list \<Rightarrow> (string \<times> string) list" where
  "available_modes_W ms =
     foldl (\<lambda>d response_mode.
              AList.update (NAME_W response_mode) (PROMPT_MODIFICATION_W response_mode) d)
       [] ms"

definition invalid_mode_message_W :: "string \<Rightarrow> string list \<Rightarrow> string" where
  "invalid_mode_message_W mode_str names =
     ''Invalid mode: '' @ mode_str @ ''\<newline> Available modes: '' @ join '', '' names"

definition get_mode_modification_W :: "PromptData_W \<Rightarrow> string option \<Rightarrow> exn + string" where
  "get_mode_modification_W pd mode_arg =
     (let d = available_modes_W (MODES_W pd)
      in case mode_arg of
           None \<Rightarrow> getitem d (DEFAULT_MODE_W pd)
         | Some mode_str \<Rightarrow>
             if mode_str = [] then getitem d (DEFAULT_MODE_W pd)
             else if mode_str \<notin> set (keys d)
               then Inl (Exception (invalid_mode_message_W mode_str (keys d)))
             else getitem d mode_str)"

text \<open>
  Here the prefix and the suffix are added to the prompt with \<open>+=\<close>, which takes a string
  and raises \<open>TypeError\<close> for a list.
\<close>

definition get_prompt_W :: "WingmanGPT_W \<Rightarrow> exn + string" where
  \<open>get_prompt_W self =
     (case PREFIX_W (prompt_data_W self) of
        JList parts \<Rightarrow> Inl TypeError
      | JStr pre \<Rightarrow>
          (case SUFFIX_W (prompt_data_W self) of
             JList parts \<Rightarrow> Inl TypeError
           | JStr suf \<Rightarrow>
               Inr (pre
                    @ '' Here is the message: "'' @ message_W self @ ''".''
                    @ '' Here is how I want you to modify the message: "''
                    @ mode_modification_W self @ ''".''
                    @ suf)))\<close>

definition get_response_W :: "env \<Rightarrow> WingmanGPT_W \<Rightarrow> exn + string" where
  "get_response_W E self =
     (case get_prompt_W self of
        Inl e \<Rightarrow> Inl e
      | Inr PROMPT \<Rightarrow>
          (let tok = replace (CHR ''\<newline>'') [] (token_W self)
           in case chatbot_ask E tok PROMPT of
                Inl e \<Rightarrow> Inl e
              | Inr datas \<Rightarrow> Inr (slice 1 (- 1) (foldl (\<lambda>response data. data) [] datas))))"

definition send_command_W :: "WingmanGPT_W \<Rightarrow> string \<Rightarrow> string" where
  \<open>send_command_W self response =
     ''osascript -e 'tell application "Messages" to send ''
     @ prepared_response response @ '' to buddy "'' @ phone_number_W self
     @ [CHR 0x22, CHR 0x27]\<close>

definition send_message_W ::
  "env \<Rightarrow> WingmanGPT_W \<Rightarrow> string \<Rightarrow> event list \<times> exn option" where
  "send_message_W E self response =
     (let command = send_command_W self response
      in ([Run command],
          case subprocess_run E command False of
            None \<Rightarrow> None
          | Some e \<Rightarrow> Some (External e)))"

definition send_and_report_W :: "env \<Rightarrow> WingmanGPT_W \<Rightarrow> string \<Rightarrow> event list" where
  "send_and_report_W E self response =
     (case send_message_W E self response of
        (evs, None) \<Rightarrow> evs @ [Print ''Message Sent.'']
      | (evs, Some e) \<Rightarrow> evs @ [Print ''Failed to send message.''])"

definition execute_W :: "env \<Rightarrow> WingmanGPT_W \<Rightarrow> event list" where
  "execute_W E self =
     (case get_response_W E self of
        Inl e \<Rightarrow> [PrintExn [] e, Print ''Failed to get response from ChatGPT API'']
      | Inr response \<Rightarrow>
          if wants_to_confirm_W self then
            Print (''********\<newline>Message: '' @ response @ ''\<newline>********'')
            # Input ''Send message? (y/n): ''
            # (case input_line E of
                 Inl e \<Rightarrow> [Print ''Failed to send message.'']
               | Inr confirm \<Rightarrow>
                   if lower confirm \<noteq> ''y'' then [Print ''Message not sent.'']
                   else send_and_report_W E self response)
          else send_and_report_W E self response)"

definition init_W ::
  "env \<Rightarrow> string option \<Rightarrow> bool \<Rightarrow> string option \<Rightarrow> string option \<Rightarrow> string option
     \<Rightarrow> exn + WingmanGPT_W" where
  "init_W E number confirm tok_arg msg_arg mode =
     (case get_phone_number_W number of Inl e \<Rightarrow> Inl e | Inr pn \<Rightarrow>
     (case get_token E tok_arg of Inl e \<Rightarrow> Inl e | Inr tok \<Rightarrow>
     (case get_message E msg_arg of Inl e \<Rightarrow> Inl e | Inr msg \<Rightarrow>
     (case get_prompt_data_W E of Inl e \<Rightarrow> Inl e | Inr pd \<Rightarrow>
     (case get_mode_modification_W pd mode of Inl e \<Rightarrow> Inl e | Inr mm \<Rightarrow>
        Inr \<lparr>phone_number_W = pn, token_W = tok, message_W = msg,
             wants_to_confirm_W = (if \<not> confirm then True else confirm),
             prompt_data_W = pd, mode_modification_W = mm\<rparr>)))))"

text \<open>
  \<open>--number\<close> is a required option here, so \<open>main\<close> runs with a string for it.
\<close>

definition main_W ::
  "env \<Rightarrow> string \<Rightarrow> bool \<Rightarrow> string option \<Rightarrow> string option \<Rightarrow> string option
     \<Rightarrow> event list" where
  "main_W E number confirm tok_arg msg_arg mode =
     (case init_W E (Some number) confirm tok_arg msg_arg mode of
        Inl e \<Rightarrow> [PrintExn ''Error occurred: '' e]
      | Inr tgpt \<Rightarrow> execute_W E tgpt)"

section \<open>Inputs of the scenarios\<close>

text \<open>
  The template of the specification's scenario, with the form of the prefix and of the
  suffix and the description of the mode left open, and an environment around it: no
  token file, no message file, a completion client that yields one quoted message, an
  operator who answers \<open>n\<close>, and a shell that runs the command.
\<close>

definition scenario_config :: "json_text \<Rightarrow> json_text \<Rightarrow> string \<Rightarrow> json_config" where
  "scenario_config pre suf descr =
     \<lparr>json_prefix = pre, json_suffix = suf,
      json_modes = [\<lparr>json_name = ''ROMANTIC'', json_description = descr,
                     json_modifier = ''make it romantic''\<rparr>],
      json_default_mode = ''ROMANTIC''\<rparr>"

definition scenario_env :: "json_config option \<Rightarrow> env" where
  \<open>scenario_env cfg =
     \<lparr>prompts_json = cfg, token_file = None, message_file = None,
      chatbot_ask = (\<lambda>tok prompt. Inr [''"Hello dear"'']),
      input_line = Inr ''n'',
      subprocess_run = (\<lambda>command check. None)\<rparr>\<close>

text \<open>
  The template as the loaders of the two copies build it from \<open>scenario_config\<close>, and the
  objects made from it for the number \<open>1234567890\<close>, the token \<open>t\<close> and the message \<open>hi\<close>
  with no mode given.
\<close>

definition scenario_template :: "json_text \<Rightarrow> json_text \<Rightarrow> string \<Rightarrow> PromptData" where
  "scenario_template pre suf descr =
     \<lparr>PREFIX = pre, SUFFIX = suf,
      MODES = [\<lparr>NAME = ''ROMANTIC'', DESCRIPTION = descr,
                PROMPT_MODIFICATION = ''make it romantic''\<rparr>],
      DEFAULT_MODE = ''ROMANTIC''\<rparr>"

definition scenario_object :: "PromptData \<Rightarrow> WingmanGPT" where
  "scenario_object pd =
     \<lparr>phone_number = ''1234567890'', token = ''t'', message = ''hi'',
      wants_to_confirm = True, prompt_data = pd, mode_modification = ''make it romantic''\<rparr>"

definition scenario_template_W :: "json_text \<Rightarrow> json_text \<Rightarrow> PromptData_W" where
  "scenario_template_W pre suf =
     \<lparr>PREFIX_W = pre, SUFFIX_W = suf,
      MODES_W = [\<lparr>NAME_W = ''ROMANTIC'', PROMPT_MODIFICATION_W = ''make it romantic''\<rparr>],
      DEFAULT_MODE_W = ''ROMANTIC''\<rparr>"

definition scenario_object_W :: "PromptData_W \<Rightarrow> WingmanGPT_W" where
  "scenario_object_W pd =
     \<lparr>phone_number_W = ''1234567890'', token_W = ''t'', message_W = ''hi'',
      wants_to_confirm_W = True, prompt_data_W = pd,
      mode_modification_W = ''make it romantic''\<rparr>"

text \<open>A template with two modes of the same name and one more.\<close>

definition three_modes :: PromptData where
  "three_modes =
     \<lparr>PREFIX = JList [''Rewrite:''], SUFFIX = JList [''Done.''],
      MODES = [\<lparr>NAME = ''ROMANTIC'', DESCRIPTION = ''sweet'', PROMPT_MODIFICATION = ''first''\<rparr>,
               \<lparr>NAME = ''FUNNY'', DESCRIPTION = ''jokes'', PROMPT_MODIFICATION = ''make it funny''\<rparr>,
               \<lparr>NAME = ''ROMANTIC'', DESCRIPTION = ''sweeter'',
                PROMPT_MODIFICATION = ''make it romantic''\<rparr>],
      DEFAULT_MODE = ''ROMANTIC''\<rparr>"

text \<open>
  A file with two modes whose default mode is the second one, and the templates the two
  loaders build from it.
\<close>

definition two_modes_config :: json_config where
  "two_modes_config =
     \<lparr>json_prefix = JList [''Rewrite:''], json_suffix = JList [''Done.''],
      json_modes = [\<lparr>json_name = ''ROMANTIC'', json_description = ''sweet'',
                     json_modifier = ''make it romantic''\<rparr>,
                    \<lparr>json_name = ''FUNNY'', json_description = ''jokes'',
                     json_modifier = ''make it funny''\<rparr>],
      json_default_mode = ''FUNNY''\<rparr>"

definition two_modes_template :: PromptData where
  "two_modes_template =
     \<lparr>PREFIX = JList [''Rewrite:''], SUFFIX = JList [''Done.''],
      MODES = [\<lparr>NAME = ''ROMANTIC'', DESCRIPTION = ''sweet'',
                PROMPT_MODIFICATION = ''make it romantic''\<rparr>,
               \<lparr>NAME = ''FUNNY'', DESCRIPTION = ''jokes'',
                PROMPT_MODIFICATION = ''make it funny''\<rparr>],
      DEFAULT_MODE = ''FUNNY''\<rparr>"

definition two_modes_template_W :: PromptData_W where
  "two_modes_template_W =
     \<lparr>PREFIX_W = JList [''Rewrite:''], SUFFIX_W = JList [''Done.''],
      MODES_W = [\<lparr>NAME_W = ''ROMANTIC'', PROMPT_MODIFICATION_W = ''make it romantic''\<rparr>,
                 \<lparr>NAME_W = ''FUNNY'', PROMPT_MODIFICATION_W = ''make it funny''\<rparr>],
      DEFAULT_MODE_W = ''ROMANTIC''\<rparr>"

section \<open>Strings and dictionaries\<close>

text \<open>
  \<open>join\<close> puts the separator after every part but the last, and nowhere else.
\<close>

lemma join_parts:
  "join sep xs = (if xs = [] then [] else concat (map (\<lambda>x. x @ sep) (butlast xs)) @ last xs)"
  by (induction sep xs rule: join.induct) simp_all

lemma char_eq_code: "c = d \<longleftrightarrow> (of_char c :: nat) = of_char d"
  by simp

lemma isdigit_chars:
  "isdigit c \<longleftrightarrow> c \<in> set ''0123456789'' \<union> {CHR 0xB2, CHR 0xB3, CHR 0xB9}"
proof -
  define n where "n = (of_char c :: nat)"
  have eq: "c = d \<longleftrightarrow> n = of_char d" for d
    by (simp add: n_def)
  have "48 \<le> n \<and> n \<le> 57 \<longleftrightarrow> n \<in> {48, 49, 50, 51, 52, 53, 54, 55, 56, 57}"
    by (simp; arith)
  then show ?thesis
    unfolding isdigit_def Let_def n_def [symmetric]
    by (simp add: eq) blast
qed

lemma list_all_isdigit:
  "list_all isdigit s \<longleftrightarrow> set s \<subseteq> set ''0123456789'' \<union> {CHR 0xB2, CHR 0xB3, CHR 0xB9}"
  unfolding list_all_iff subset_iff isdigit_chars by blast

lemma lower_char_y: "lower_char c = CHR ''y'' \<longleftrightarrow> c = CHR ''y'' \<or> c = CHR ''Y''"
proof -
  define n where "n = (of_char c :: nat)"
  have c: "c = char_of n" by (simp add: n_def)
  have n: "n < 256" unfolding n_def by simp
  show ?thesis
    unfolding lower_char_def Let_def n_def [symmetric]
    using n by (auto simp: c char_eq_code [of _ "CHR ''y''"] char_eq_code [of _ "CHR ''Y''"])
qed

lemma lower_y: "lower s = ''y'' \<longleftrightarrow> s = ''y'' \<or> s = ''Y''"
  by (cases s) (auto simp: lower_def lower_char_y)

lemma slice_strip: "slice 1 (- 1) s = butlast (tl s)"
proof (cases s)
  case Nil
  then show ?thesis by (simp add: slice_def slice_bound_def)
next
  case (Cons a t)
  then show ?thesis by (simp add: slice_def slice_bound_def butlast_conv_take)
qed

text \<open>
  The dictionary built by the comprehension: its keys are the names in the order of
  their first occurrence, and a name is mapped to the value of its last occurrence.
\<close>

lemma keys_update:
  "keys (AList.update k v d) = (if k \<in> set (keys d) then keys d else keys d @ [k])"
  by (simp add: keys_def update_keys)

lemma keys_fold_update:
  "keys (foldl (\<lambda>d m. AList.update (f m) (g m) d) [] ms) = rev (remdups (rev (map f ms)))"
  by (induction ms rule: rev_induct) (simp_all add: keys_def keys_update [unfolded keys_def])

lemma map_of_fold_update:
  "map_of (foldl (\<lambda>d m. AList.update (f m) (g m) d) [] ms) k
     = map_option g (find (\<lambda>m. f m = k) (rev ms))"
  by (induction ms rule: rev_induct) (simp_all add: update_conv')

lemma count_list_distinct: "distinct xs \<Longrightarrow> x \<in> set xs \<Longrightarrow> count_list xs x = 1"
  by (induction xs) auto

lemma first_occurrence_once:
  "x \<in> set xs \<Longrightarrow> count_list (rev (remdups (rev xs))) x = 1"
  by (rule count_list_distinct) simp_all

lemma find_some: "find P xs = Some m \<Longrightarrow> m \<in> set xs \<and> P m"
  by (induction xs) (auto split: if_splits)

lemma find_rev_some:
  assumes "k \<in> f ` set ms"
  shows "\<exists>m \<in> set ms. f m = k \<and> find (\<lambda>m. f m = k) (rev ms) = Some m"
proof (cases "find (\<lambda>m. f m = k) (rev ms)")
  case None
  with assms show ?thesis by (auto simp: find_None_iff)
next
  case (Some m)
  from find_some [OF Some] Some show ?thesis by auto
qed

section \<open>The phone number\<close>

lemma check_digits_list_all:
  "check_digits s
     = (if list_all isdigit s then Inr () else Inl (Exception ''Invalid phone number''))"
  by (induction s) auto

lemma check_digits_W_list_all:
  "check_digits_W s
     = (if list_all isdigit s then Inr () else Inl (Exception ''Invalid phone number''))"
  by (induction s) auto

text \<open>
  C3: the validation is to accept a string if and only if it is exactly 10 characters
  long and every character is an ASCII digit. The code tests the characters with
  \<open>str.isdigit\<close>, which is also true of digits outside ASCII: the ten-character string
  \<open>123456789\<close> followed by the superscript two U+00B2 is accepted and returned unchanged,
  in both copies, although its last character is not an ASCII digit.
\<close>

theorem phone_number_accepts_superscript_digit:
  "get_phone_number (Some (''123456789'' @ [CHR 0xB2])) = Inr (''123456789'' @ [CHR 0xB2])
   \<and> get_phone_number_W (Some (''123456789'' @ [CHR 0xB2])) = Inr (''123456789'' @ [CHR 0xB2])
   \<and> length (''123456789'' @ [CHR 0xB2]) = 10
   \<and> \<not> set (''123456789'' @ [CHR 0xB2]) \<subseteq> set ''0123456789''"
  by (simp add: get_phone_number_def get_phone_number_W_def isdigit_def)

text \<open>
  What the code does on the strings of the model, those over U+0000 .. U+00FF: it
  accepts the ten-character strings of ASCII digits and of the three superscripts, and
  raises its exception for everything else. The strings the claim accepts are accepted,
  and a wrong length and \<open>None\<close> are rejected, as the claim says.
\<close>

lemma get_phone_number_latin1:
  "get_phone_number number =
     (case number of
        None \<Rightarrow> Inl (Exception ''Invalid phone number'')
      | Some s \<Rightarrow>
          if length s = 10 \<and> set s \<subseteq> set ''0123456789'' \<union> {CHR 0xB2, CHR 0xB3, CHR 0xB9}
          then Inr s
          else Inl (Exception ''Invalid phone number''))"
  by (simp add: get_phone_number_def check_digits_list_all list_all_isdigit
           split: option.splits)

lemma get_phone_number_ascii_digits:
  assumes "length s = 10" and "set s \<subseteq> set ''0123456789''"
  shows "get_phone_number (Some s) = Inr s"
proof -
  have "list_all isdigit s"
    unfolding list_all_iff isdigit_chars using assms(2) by blast
  with assms(1) show ?thesis
    by (simp add: get_phone_number_def check_digits_list_all)
qed

lemma get_phone_number_wrong_length:
  "length s \<noteq> 10 \<Longrightarrow> get_phone_number (Some s) = Inl (Exception ''Invalid phone number'')"
  by (simp add: get_phone_number_def)

text \<open>
  C10: the validators of the two copies of the program are the same function: on every
  input both accept, returning the input, or both raise the same exception.
\<close>

theorem get_phone_number_versions_agree:
  "get_phone_number_W number = get_phone_number number"
  by (simp add: get_phone_number_def get_phone_number_W_def check_digits_list_all
        check_digits_W_list_all split: option.splits)

section \<open>Mode resolution\<close>

lemma get_prompt_data_fields:
  assumes "get_prompt_data E = Inr pd"
  shows "\<exists>cfg. prompts_json E = Some cfg
           \<and> PREFIX pd = json_prefix cfg \<and> SUFFIX pd = json_suffix cfg
           \<and> map NAME (MODES pd) = map json_name (json_modes cfg)
           \<and> map DESCRIPTION (MODES pd) = map json_description (json_modes cfg)
           \<and> map PROMPT_MODIFICATION (MODES pd) = map json_modifier (json_modes cfg)
           \<and> DEFAULT_MODE pd = json_default_mode cfg"
  using assms by (auto simp: get_prompt_data_def comp_def split: option.splits)

text \<open>
  The loader of src/WingmanGPT never reads the field \<open>default_mode\<close> of the file: the
  template it loads has the default mode \<open>ROMANTIC\<close>.
\<close>

lemma get_prompt_data_W_default:
  "get_prompt_data_W E = Inr pd \<Longrightarrow> DEFAULT_MODE_W pd = ''ROMANTIC''"
  by (auto simp: get_prompt_data_W_def split: option.splits)

text \<open>
  When no mode has the name of the default mode, the lookup raises \<open>KeyError\<close>; neither
  loader checks that the default mode is one of the modes.
\<close>

lemma default_mode_missing:
  assumes "mode_arg = None \<or> mode_arg = Some []"
    and "DEFAULT_MODE pd \<notin> NAME ` set (MODES pd)"
  shows "get_mode_modification pd mode_arg = Inl (KeyError (DEFAULT_MODE pd))"
proof -
  have "find (\<lambda>m. NAME m = DEFAULT_MODE pd) (rev (MODES pd)) = None"
    using assms(2) by (force simp: find_None_iff)
  then have "getitem (available_modes (MODES pd)) (DEFAULT_MODE pd)
               = Inl (KeyError (DEFAULT_MODE pd))"
    by (simp add: getitem_def available_modes_def map_of_fold_update)
  with assms(1) show ?thesis
    by (auto simp: get_mode_modification_def)
qed

lemma default_mode_lookup:
  assumes "k \<in> f ` set ms"
  shows "\<exists>m \<in> set ms. f m = k
           \<and> getitem (foldl (\<lambda>d m. AList.update (f m) (g m) d) [] ms) k = Inr (g m)
           \<and> find (\<lambda>m. f m = k) (rev ms) = Some m"
proof -
  from find_rev_some [OF assms] obtain m
    where m: "m \<in> set ms" "f m = k" "find (\<lambda>m. f m = k) (rev ms) = Some m" by blast
  have "getitem (foldl (\<lambda>d m. AList.update (f m) (g m) d) [] ms) k = Inr (g m)"
    by (simp add: getitem_def map_of_fold_update m(3))
  with m show ?thesis by blast
qed

text \<open>
  C4, as stated, fails in src/WingmanGPT: for a file whose default mode is \<open>FUNNY\<close>, the
  loader builds a template whose default mode is \<open>ROMANTIC\<close>, and with no mode given the
  resolution returns the modification of the mode \<open>ROMANTIC\<close>, not that of the mode that
  the file names.
\<close>

theorem older_loader_ignores_default_mode:
  "json_default_mode two_modes_config = ''FUNNY''
   \<and> get_prompt_data_W (scenario_env (Some two_modes_config)) = Inr two_modes_template_W
   \<and> get_mode_modification_W two_modes_template_W None = Inr ''make it romantic''
   \<and> get_mode_modification_W two_modes_template_W None \<noteq> Inr ''make it funny''"
  by (simp add: two_modes_config_def two_modes_template_W_def scenario_env_def
        get_prompt_data_W_def get_mode_modification_W_def available_modes_W_def getitem_def)

text \<open>
  C4, amended: in src/src, when the mode argument is omitted (\<open>None\<close> or the empty string)
  and the field \<open>default_mode\<close> of the configuration file is the name of one of the
  modes, mode resolution returns the prompt modification of the mode of that name (the
  last one in the file, should several have it). In src/WingmanGPT the field
  \<open>default_mode\<close> of the file is not read: when the mode argument is omitted and a mode
  is named \<open>ROMANTIC\<close>, mode resolution returns the prompt modification of that mode
  (again the last of that name), whatever the file.
\<close>

theorem default_mode_resolution:
  assumes "mode_arg = None \<or> mode_arg = Some []"
  shows "(get_prompt_data E = Inr pd \<and> DEFAULT_MODE pd \<in> NAME ` set (MODES pd)
          \<longrightarrow> (\<exists>cfg. prompts_json E = Some cfg \<and> DEFAULT_MODE pd = json_default_mode cfg
                 \<and> (\<exists>m \<in> set (MODES pd). NAME m = json_default_mode cfg
                       \<and> get_mode_modification pd mode_arg = Inr (PROMPT_MODIFICATION m)
                       \<and> find (\<lambda>m. NAME m = json_default_mode cfg) (rev (MODES pd))
                           = Some m)))
         \<and> (get_prompt_data_W E' = Inr pd' \<and> ''ROMANTIC'' \<in> NAME_W ` set (MODES_W pd')
            \<longrightarrow> (\<exists>m \<in> set (MODES_W pd'). NAME_W m = ''ROMANTIC''
                   \<and> get_mode_modification_W pd' mode_arg = Inr (PROMPT_MODIFICATION_W m)
                   \<and> find (\<lambda>m. NAME_W m = ''ROMANTIC'') (rev (MODES_W pd')) = Some m))"
proof (intro conjI impI)
  assume a: "get_prompt_data E = Inr pd \<and> DEFAULT_MODE pd \<in> NAME ` set (MODES pd)"
  from get_prompt_data_fields [of E pd] a obtain cfg
    where cfg: "prompts_json E = Some cfg" "DEFAULT_MODE pd = json_default_mode cfg" by blast
  from a default_mode_lookup [of "DEFAULT_MODE pd" NAME "MODES pd" PROMPT_MODIFICATION]
  obtain m where m: "m \<in> set (MODES pd)" "NAME m = DEFAULT_MODE pd"
      "getitem (available_modes (MODES pd)) (DEFAULT_MODE pd) = Inr (PROMPT_MODIFICATION m)"
      "find (\<lambda>m. NAME m = DEFAULT_MODE pd) (rev (MODES pd)) = Some m"
    unfolding available_modes_def by blast
  from assms m(3) have "get_mode_modification pd mode_arg = Inr (PROMPT_MODIFICATION m)"
    by (auto simp: get_mode_modification_def)
  with cfg m
  show "\<exists>cfg. prompts_json E = Some cfg \<and> DEFAULT_MODE pd = json_default_mode cfg
          \<and> (\<exists>m \<in> set (MODES pd). NAME m = json_default_mode cfg
                \<and> get_mode_modification pd mode_arg = Inr (PROMPT_MODIFICATION m)
                \<and> find (\<lambda>m. NAME m = json_default_mode cfg) (rev (MODES pd)) = Some m)"
    by auto
next
  assume a: "get_prompt_data_W E' = Inr pd' \<and> ''ROMANTIC'' \<in> NAME_W ` set (MODES_W pd')"
  then have d: "DEFAULT_MODE_W pd' = ''ROMANTIC''"
    by (auto dest: get_prompt_data_W_default)
  from a default_mode_lookup [of "''ROMANTIC''" NAME_W "MODES_W pd'" PROMPT_MODIFICATION_W]
  obtain m where m: "m \<in> set (MODES_W pd')" "NAME_W m = ''ROMANTIC''"
      "getitem (available_modes_W (MODES_W pd')) ''ROMANTIC'' = Inr (PROMPT_MODIFICATION_W m)"
      "find (\<lambda>m. NAME_W m = ''ROMANTIC'') (rev (MODES_W pd')) = Some m"
    unfolding available_modes_W_def by blast
  from assms m(3) d
  have "get_mode_modification_W pd' mode_arg = Inr (PROMPT_MODIFICATION_W m)"
    by (auto simp: get_mode_modification_W_def)
  with m
  show "\<exists>m \<in> set (MODES_W pd'). NAME_W m = ''ROMANTIC''
          \<and> get_mode_modification_W pd' mode_arg = Inr (PROMPT_MODIFICATION_W m)
          \<and> find (\<lambda>m. NAME_W m = ''ROMANTIC'') (rev (MODES_W pd')) = Some m"
    by auto
qed

text \<open>
  The file with the default mode \<open>FUNNY\<close>: src/src resolves the omitted mode to the
  modification of \<open>FUNNY\<close>, src/WingmanGPT to that of \<open>ROMANTIC\<close>.
\<close>

theorem default_mode_resolution_witness:
  "get_prompt_data (scenario_env (Some two_modes_config)) = Inr two_modes_template
   \<and> get_mode_modification two_modes_template None = Inr ''make it funny''
   \<and> get_prompt_data_W (scenario_env (Some two_modes_config)) = Inr two_modes_template_W
   \<and> get_mode_modification_W two_modes_template_W (Some []) = Inr ''make it romantic''"
proof -
  let ?E = "scenario_env (Some two_modes_config)"
  have load: "get_prompt_data ?E = Inr two_modes_template"
    by (simp add: get_prompt_data_def scenario_env_def two_modes_config_def
          two_modes_template_def)
  have dflt: "DEFAULT_MODE two_modes_template \<in> NAME ` set (MODES two_modes_template)"
    by (simp add: two_modes_template_def)
  have load': "get_prompt_data_W ?E = Inr two_modes_template_W"
    by (simp add: get_prompt_data_W_def scenario_env_def two_modes_config_def
          two_modes_template_W_def)
  have dflt': "''ROMANTIC'' \<in> NAME_W ` set (MODES_W two_modes_template_W)"
    by (simp add: two_modes_template_W_def)
  have none: "(None :: string option) = None \<or> None = Some []" by simp
  have empty: "Some [] = None \<or> Some ([] :: string) = Some []" by simp
  from default_mode_resolution [OF none, of ?E two_modes_template ?E two_modes_template_W]
       load dflt
  have "get_mode_modification two_modes_template None = Inr ''make it funny''"
    by (auto simp: two_modes_template_def)
  moreover
  from default_mode_resolution [OF empty, of ?E two_modes_template ?E two_modes_template_W]
       load' dflt'
  have "get_mode_modification_W two_modes_template_W (Some []) = Inr ''make it romantic''"
    by (auto simp: two_modes_template_W_def)
  ultimately show ?thesis using load load' by simp
qed

text \<open>
  C5: a mode name that is given (not empty) and is not the name of a configured mode makes
  the validation raise an exception whose message ends with the configured names joined
  by a comma and a space, in the order of their first occurrence, each name once.
\<close>

theorem unknown_mode_error:
  assumes "mode_str \<noteq> []" and "mode_str \<notin> NAME ` set (MODES pd)"
  shows "\<exists>names. get_mode_modification pd (Some mode_str)
                    = Inl (Exception (''Invalid mode: '' @ mode_str
                                      @ ''\<newline> Available modes: ''
                                      @ replicate 28 (CHR '' '') @ join '', '' names))
               \<and> names = rev (remdups (rev (map NAME (MODES pd))))
               \<and> (\<forall>n \<in> NAME ` set (MODES pd). count_list names n = 1)"
proof -
  have k: "keys (available_modes (MODES pd)) = rev (remdups (rev (map NAME (MODES pd))))"
    by (simp add: available_modes_def keys_fold_update)
  have "\<forall>n \<in> NAME ` set (MODES pd).
          count_list (rev (remdups (rev (map NAME (MODES pd))))) n = 1"
    by (intro ballI first_occurrence_once) simp
  with assms k show ?thesis
    by (auto simp: get_mode_modification_def invalid_mode_message_def)
qed

text \<open>With the name \<open>ROMANTIC\<close> configured twice, the message still lists it once.\<close>

theorem unknown_mode_error_witness:
  "get_mode_modification three_modes (Some ''ANGRY'')
     = Inl (Exception (''Invalid mode: ANGRY\<newline> Available modes: ''
                       @ replicate 28 (CHR '' '') @ ''ROMANTIC, FUNNY''))"
proof -
  have a: "''ANGRY'' \<noteq> []" by simp
  have b: "''ANGRY'' \<notin> NAME ` set (MODES three_modes)" by (simp add: three_modes_def)
  from unknown_mode_error [OF a b] show ?thesis
    by (auto simp: three_modes_def)
qed

text \<open>The same in src/WingmanGPT, whose message has no run of spaces before the names.\<close>

lemma unknown_mode_error_W:
  assumes "mode_str \<noteq> []" and "mode_str \<notin> NAME_W ` set (MODES_W pd)"
  shows "get_mode_modification_W pd (Some mode_str)
           = Inl (Exception (''Invalid mode: '' @ mode_str @ ''\<newline> Available modes: ''
                             @ join '', '' (rev (remdups (rev (map NAME_W (MODES_W pd)))))))"
proof -
  have "keys (available_modes_W (MODES_W pd)) = rev (remdups (rev (map NAME_W (MODES_W pd))))"
    by (simp add: available_modes_W_def keys_fold_update)
  with assms show ?thesis
    by (auto simp: get_mode_modification_W_def invalid_mode_message_W_def)
qed

section \<open>The message body\<close>

text \<open>
  C8: the message is the value of the flag when that is a string and not empty; otherwise
  it is the content of \<open>message.txt\<close> when the file exists and is not empty; otherwise
  the resolution raises its exception.
\<close>

theorem message_precedence:
  "(\<forall>m. msg_arg = Some m \<and> m \<noteq> [] \<longrightarrow> get_message E msg_arg = Inr m)
   \<and> (msg_arg = None \<or> msg_arg = Some [] \<longrightarrow>
        (\<forall>c. message_file E = Some c \<and> c \<noteq> [] \<longrightarrow> get_message E msg_arg = Inr c)
        \<and> (message_file E = None \<or> message_file E = Some [] \<longrightarrow>
             get_message E msg_arg
               = Inl (Exception ''No message provided or found in message.txt'')))"
  by (auto simp: get_message_def message_fallback_def)

theorem message_precedence_witness:
  "get_message (scenario_env None) (Some ''hi'') = Inr ''hi''
   \<and> get_message ((scenario_env None)\<lparr>message_file := Some ''from the file''\<rparr>) None
       = Inr ''from the file''
   \<and> get_message (scenario_env None) (Some [])
       = Inl (Exception ''No message provided or found in message.txt'')"
  using message_precedence [of "Some ''hi''" "scenario_env None"]
    message_precedence [of None "(scenario_env None)\<lparr>message_file := Some ''from the file''\<rparr>"]
    message_precedence [of "Some []" "scenario_env None"]
  by (simp add: scenario_env_def)

text \<open>The flag wins over a file that is there.\<close>

lemma message_flag_first:
  "m \<noteq> [] \<Longrightarrow> get_message (E\<lparr>message_file := Some c\<rparr>) (Some m) = Inr m"
  by (simp add: get_message_def)

section \<open>The prompt\<close>

lemma init_fields:
  assumes "init E number noconfirm tok_arg (Some m) mode pd = Inr self" and "m \<noteq> []"
  shows "message self = m \<and> prompt_data self = pd
         \<and> get_mode_modification pd mode = Inr (mode_modification self)"
  using assms by (auto simp: init_def get_message_def split: sum.splits)

lemma init_W_fields:
  assumes "init_W E number confirm tok_arg (Some m) mode = Inr self" and "m \<noteq> []"
  shows "message_W self = m \<and> get_prompt_data_W E = Inr (prompt_data_W self)
         \<and> get_mode_modification_W (prompt_data_W self) mode = Inr (mode_modification_W self)"
  using assms by (auto simp: init_W_def get_message_def split: sum.splits)

text \<open>
  C1, as stated, fails in src/src: with the prefix and the suffix given as the strings
  \<open>Rewrite:\<close> and \<open>Done.\<close>, \<open>" ".join\<close> runs over their characters and the prompt
  starts with \<open>R e w r i t e :\<close> and ends with \<open>D o n e .\<close>.
\<close>

theorem string_prefix_is_spaced_out:
  \<open>get_prompt_data
     (scenario_env (Some (scenario_config (JStr ''Rewrite:'') (JStr ''Done.'') ''sweet'')))
     = Inr (scenario_template (JStr ''Rewrite:'') (JStr ''Done.'') ''sweet'')
   \<and> init (scenario_env (Some (scenario_config (JStr ''Rewrite:'') (JStr ''Done.'') ''sweet'')))
          (Some ''1234567890'') False (Some ''t'') (Some ''hi'') None
          (scenario_template (JStr ''Rewrite:'') (JStr ''Done.'') ''sweet'')
       = Inr (scenario_object (scenario_template (JStr ''Rewrite:'') (JStr ''Done.'') ''sweet''))
   \<and> get_prompt (scenario_object (scenario_template (JStr ''Rewrite:'') (JStr ''Done.'') ''sweet''))
       = ''R e w r i t e : Here is the message: "hi". Here is how I want you to modify the message: "make it romantic".D o n e .''
   \<and> get_prompt (scenario_object (scenario_template (JStr ''Rewrite:'') (JStr ''Done.'') ''sweet''))
       \<noteq> ''Rewrite: Here is the message: "hi". Here is how I want you to modify the message: "make it romantic".Done.''\<close>
  by (simp add: get_prompt_data_def scenario_env_def scenario_config_def scenario_template_def
        scenario_object_def init_def get_phone_number_def isdigit_def get_token_def
        get_message_def get_mode_modification_def available_modes_def getitem_def get_prompt_def)

text \<open>
  C1, amended: in src/src the prefix and the suffix of the template are lists of strings,
  which the builder joins with single spaces: each string but the last of a list is
  followed by one space. For the single mode \<open>ROMANTIC\<close> with the modifier
  \<open>make it romantic\<close> as the default mode, the message \<open>hi\<close> and no mode given, the
  builder returns the joined prefix, the two quoted sentences and the joined suffix;
  for the prefix \<open>["Rewrite:"]\<close> and the suffix \<open>["Done."]\<close> that is exactly the
  string of the claim. In src/WingmanGPT, where the prefix and the suffix are the strings
  \<open>Rewrite:\<close> and \<open>Done.\<close>, the builder returns the same string.
\<close>

theorem scenario_prompt:
  \<open>(prompts_json E = Some (scenario_config (JList ps) (JList ss) descr)
     \<and> get_prompt_data E = Inr pd
     \<and> init E number noconfirm tok_arg (Some ''hi'') None pd = Inr self
     \<longrightarrow> get_prompt self
          = (if ps = [] then [] else concat (map (\<lambda>p. p @ '' '') (butlast ps)) @ last ps)
            @ '' Here is the message: "hi". Here is how I want you to modify the message: "make it romantic".''
            @ (if ss = [] then [] else concat (map (\<lambda>p. p @ '' '') (butlast ss)) @ last ss)
        \<and> (ps = [''Rewrite:''] \<and> ss = [''Done.''] \<longrightarrow> get_prompt self = ''Rewrite: Here is the message: "hi". Here is how I want you to modify the message: "make it romantic".Done.''))
   \<and> (prompts_json E' = Some (scenario_config (JStr ''Rewrite:'') (JStr ''Done.'') descr')
       \<and> init_W E' number' confirm tok_arg' (Some ''hi'') None = Inr self'
       \<longrightarrow> get_prompt_W self'
            = Inr ''Rewrite: Here is the message: "hi". Here is how I want you to modify the message: "make it romantic".Done.'')\<close>
proof (intro conjI impI)
  assume a: "prompts_json E = Some (scenario_config (JList ps) (JList ss) descr)
     \<and> get_prompt_data E = Inr pd
     \<and> init E number noconfirm tok_arg (Some ''hi'') None pd = Inr self"
  then have pd: "pd = scenario_template (JList ps) (JList ss) descr"
    by (auto simp: get_prompt_data_def scenario_config_def scenario_template_def)
  from a have "init E number noconfirm tok_arg (Some ''hi'') None pd = Inr self" by simp
  from init_fields [OF this] have f: "message self = ''hi''" "prompt_data self = pd"
    "get_mode_modification pd None = Inr (mode_modification self)" by simp_all
  from f(3) have "mode_modification self = ''make it romantic''"
    by (simp add: pd scenario_template_def get_mode_modification_def available_modes_def
          getitem_def)
  with f(1,2) show g: \<open>get_prompt self
          = (if ps = [] then [] else concat (map (\<lambda>p. p @ '' '') (butlast ps)) @ last ps)
            @ '' Here is the message: "hi". Here is how I want you to modify the message: "make it romantic".''
            @ (if ss = [] then [] else concat (map (\<lambda>p. p @ '' '') (butlast ss)) @ last ss)\<close>
    by (simp add: get_prompt_def pd scenario_template_def join_parts)
  assume "ps = [''Rewrite:''] \<and> ss = [''Done.'']"
  with g show \<open>get_prompt self = ''Rewrite: Here is the message: "hi". Here is how I want you to modify the message: "make it romantic".Done.''\<close>
    by simp
next
  assume a: "prompts_json E'
               = Some (scenario_config (JStr ''Rewrite:'') (JStr ''Done.'') descr')
       \<and> init_W E' number' confirm tok_arg' (Some ''hi'') None = Inr self'"
  then have "init_W E' number' confirm tok_arg' (Some ''hi'') None = Inr self'" by simp
  from init_W_fields [OF this] have f: "message_W self' = ''hi''"
    "get_prompt_data_W E' = Inr (prompt_data_W self')"
    "get_mode_modification_W (prompt_data_W self') None = Inr (mode_modification_W self')"
    by simp_all
  from f(2) a have pd: "prompt_data_W self'
                          = scenario_template_W (JStr ''Rewrite:'') (JStr ''Done.'')"
    by (auto simp: get_prompt_data_W_def scenario_config_def scenario_template_W_def)
  from f(3) have "mode_modification_W self' = ''make it romantic''"
    by (simp add: pd scenario_template_W_def get_mode_modification_W_def available_modes_W_def
          getitem_def)
  with f(1) show \<open>get_prompt_W self'
            = Inr ''Rewrite: Here is the message: "hi". Here is how I want you to modify the message: "make it romantic".Done.''\<close>
    by (simp add: get_prompt_W_def pd scenario_template_W_def)
qed

text \<open>
  Both copies at the scenario's inputs, each with its form of the template, and src/src
  with a prefix and a suffix of several strings.
\<close>

theorem scenario_prompt_witness:
  \<open>init (scenario_env (Some (scenario_config (JList [''Rewrite:'']) (JList [''Done.'']) ''sweet'')))
      (Some ''1234567890'') False (Some ''t'') (Some ''hi'') None
      (scenario_template (JList [''Rewrite:'']) (JList [''Done.'']) ''sweet'')
     = Inr (scenario_object (scenario_template (JList [''Rewrite:'']) (JList [''Done.'']) ''sweet''))
   \<and> get_prompt (scenario_object (scenario_template (JList [''Rewrite:'']) (JList [''Done.'']) ''sweet''))
       = ''Rewrite: Here is the message: "hi". Here is how I want you to modify the message: "make it romantic".Done.''
   \<and> get_prompt (scenario_object
         (scenario_template (JList [''Please'', ''rewrite'', ''this:''])
            (JList [''Done.'', ''Thanks.'']) ''sweet''))
       = ''Please rewrite this: Here is the message: "hi". Here is how I want you to modify the message: "make it romantic".Done. Thanks.''
   \<and> init_W (scenario_env (Some (scenario_config (JStr ''Rewrite:'') (JStr ''Done.'') ''sweet'')))
        (Some ''1234567890'') False (Some ''t'') (Some ''hi'') None
       = Inr (scenario_object_W (scenario_template_W (JStr ''Rewrite:'') (JStr ''Done.'')))
   \<and> get_prompt_W (scenario_object_W (scenario_template_W (JStr ''Rewrite:'') (JStr ''Done.'')))
       = Inr ''Rewrite: Here is the message: "hi". Here is how I want you to modify the message: "make it romantic".Done.''\<close>
proof -
  have cfg: "prompts_json (scenario_env (Some (scenario_config pre suf ''sweet'')))
               = Some (scenario_config pre suf ''sweet'')" for pre suf
    by (simp add: scenario_env_def)
  have load: "get_prompt_data (scenario_env (Some (scenario_config pre suf ''sweet'')))
                = Inr (scenario_template pre suf ''sweet'')" for pre suf
    by (simp add: get_prompt_data_def scenario_env_def scenario_config_def
          scenario_template_def)
  have obj: "init (scenario_env (Some (scenario_config pre suf ''sweet'')))
               (Some ''1234567890'') False (Some ''t'') (Some ''hi'') None
               (scenario_template pre suf ''sweet'')
               = Inr (scenario_object (scenario_template pre suf ''sweet''))" for pre suf
    by (simp add: scenario_template_def scenario_object_def init_def get_phone_number_def
          isdigit_def get_token_def get_message_def get_mode_modification_def
          available_modes_def getitem_def)
  let ?E' = "scenario_env
               (Some (scenario_config (JStr ''Rewrite:'') (JStr ''Done.'') ''sweet''))"
  let ?pd' = "scenario_template_W (JStr ''Rewrite:'') (JStr ''Done.'')"
  have obj': "init_W ?E' (Some ''1234567890'') False (Some ''t'') (Some ''hi'') None
                = Inr (scenario_object_W ?pd')"
    by (simp add: scenario_env_def scenario_config_def scenario_template_W_def
          scenario_object_W_def init_W_def get_phone_number_W_def isdigit_def get_token_def
          get_message_def get_prompt_data_W_def get_mode_modification_W_def
          available_modes_W_def getitem_def)
  let ?one = "scenario_template (JList [''Rewrite:'']) (JList [''Done.'']) ''sweet''"
  let ?many = "scenario_template (JList [''Please'', ''rewrite'', ''this:''])
                 (JList [''Done.'', ''Thanks.'']) ''sweet''"
  from scenario_prompt
         [of "scenario_env
                (Some (scenario_config (JList [''Rewrite:'']) (JList [''Done.'']) ''sweet''))"
             "[''Rewrite:'']" "[''Done.'']" "''sweet''" ?one
             "Some ''1234567890''" False "Some ''t''" "scenario_object ?one"
             ?E' "''sweet''" "Some ''1234567890''" False "Some ''t''" "scenario_object_W ?pd'"]
       cfg load obj obj'
  have one: \<open>get_prompt (scenario_object ?one) = ''Rewrite: Here is the message: "hi". Here is how I want you to modify the message: "make it romantic".Done.''
             \<and> get_prompt_W (scenario_object_W ?pd') = Inr ''Rewrite: Here is the message: "hi". Here is how I want you to modify the message: "make it romantic".Done.''\<close>
    by simp
  from scenario_prompt
         [of "scenario_env
                (Some (scenario_config (JList [''Please'', ''rewrite'', ''this:''])
                         (JList [''Done.'', ''Thanks.'']) ''sweet''))"
             "[''Please'', ''rewrite'', ''this:'']" "[''Done.'', ''Thanks.'']" "''sweet''" ?many
             "Some ''1234567890''" False "Some ''t''" "scenario_object ?many"
             ?E' "''sweet''" "Some ''1234567890''" False "Some ''t''" "scenario_object_W ?pd'"]
       cfg load obj
  have many: \<open>get_prompt (scenario_object ?many)
       = ''Please rewrite this: Here is the message: "hi". Here is how I want you to modify the message: "make it romantic".Done. Thanks.''\<close>
    by simp
  from one many obj obj' show ?thesis by simp
qed

section \<open>The completion adapter\<close>

lemma last_message:
  "foldl (\<lambda>response data. data) r datas = (if datas = [] then r else last datas)"
  by (induction datas arbitrary: r) auto

text \<open>
  C9: when the completion client returns, the raw response is the last message it
  yielded, or the empty string when it yielded none, and the adapter returns the raw
  response without its first and its last character: a text of length
  \<open>max(0, length of the raw response - 2)\<close>, around which the two removed characters
  give the raw response back when that has two characters or more.
\<close>

theorem response_strip:
  assumes "chatbot_ask E (replace (CHR ''\<newline>'') [] (token self)) (get_prompt self)
             = Inr datas"
    and "raw = (if datas = [] then [] else last datas)"
  shows "get_response E self = Inr (butlast (tl raw))
         \<and> int (length (butlast (tl raw))) = max 0 (int (length raw) - 2)
         \<and> (2 \<le> length raw \<longrightarrow> raw = [hd raw] @ butlast (tl raw) @ [last raw])"
proof -
  have "get_response E self = Inr (butlast (tl raw))"
    using assms by (simp add: get_response_def last_message slice_strip)
  moreover have "int (length (butlast (tl raw))) = max 0 (int (length raw) - 2)"
    by simp
  moreover have "2 \<le> length raw \<longrightarrow> raw = [hd raw] @ butlast (tl raw) @ [last raw]"
    by (cases raw) auto
  ultimately show ?thesis by simp
qed

theorem response_strip_witness:
  \<open>get_response (scenario_env None)
      (scenario_object (scenario_template (JList [''Rewrite:'']) (JList [''Done.'']) ''sweet''))
     = Inr ''Hello dear''
   \<and> int (length ''Hello dear'') = max 0 (int (length ''"Hello dear"'') - 2)\<close>
proof -
  let ?E = "scenario_env None"
  let ?self = "scenario_object
                 (scenario_template (JList [''Rewrite:'']) (JList [''Done.'']) ''sweet'')"
  have a: \<open>chatbot_ask ?E (replace (CHR ''\<newline>'') [] (token ?self)) (get_prompt ?self)
             = Inr [''"Hello dear"'']\<close>
    by (simp add: scenario_env_def)
  have b: \<open>''"Hello dear"'' = (if [''"Hello dear"''] = [] then [] else last [''"Hello dear"''])\<close>
    by simp
  from response_strip [OF a b] show ?thesis by simp
qed

text \<open>A raw response of one character or none gives the empty text.\<close>

lemma response_strip_short: "length raw \<le> 1 \<Longrightarrow> slice 1 (- 1) raw = []"
  by (cases raw) (simp_all add: slice_strip)

lemma response_strip_W:
  assumes "get_prompt_W self = Inr PROMPT"
    and "chatbot_ask E (replace (CHR ''\<newline>'') [] (token_W self)) PROMPT = Inr datas"
  shows "get_response_W E self = Inr (butlast (tl (if datas = [] then [] else last datas)))"
  using assms by (simp add: get_response_W_def last_message slice_strip)

section \<open>The body handed to the dispatch command\<close>

text \<open>
  Where \<open>shlex.quote\<close> puts the text between single quotes, the slice removes exactly
  those two quotes.
\<close>

lemma prepared_response_quoted:
  assumes "s = [] \<or> \<not> list_all shlex_safe s"
  shows "prepared_response s
           = [CHR 0x22] @ replace (CHR 0x27) [CHR 0x27, CHR 0x22, CHR 0x27, CHR 0x22, CHR 0x27] s
             @ [CHR 0x22]"
  using assms by (auto simp: prepared_response_def shlex_quote_def slice_strip replace_def)

text \<open>
  Where it returns the text as it is, because every character is safe, there are no
  quotes around it and the slice removes the first and the last character of the text.
\<close>

lemma prepared_response_safe:
  assumes "s \<noteq> []" and "list_all shlex_safe s"
  shows "prepared_response s = [CHR 0x22] @ butlast (tl s) @ [CHR 0x22]"
  using assms by (simp add: prepared_response_def shlex_quote_def slice_strip)

text \<open>
  C2 at the completion text \<open>Hello\<close>: \<open>shlex.quote\<close> returns it unquoted, the body is
  \<open>"ell"\<close>, and that is what the command sends. The claim says that nothing of the
  text is stripped.
\<close>

theorem prepared_response_drops_text:
  \<open>shlex_quote ''Hello'' = ''Hello''
   \<and> prepared_response ''Hello'' = ''"ell"''
   \<and> fst (send_message E self ''Hello'')
       = [Run (''osascript -e 'tell application "Messages" to send "ell" to buddy "''
               @ phone_number self @ [CHR 0x22, CHR 0x27])]\<close>
  by (simp add: shlex_quote_def shlex_safe_def prepared_response_def slice_strip
        send_message_def send_command_def Let_def)

section \<open>The confirmation\<close>

text \<open>
  C7: when the confirmation is wanted, the response has been obtained and the operator's
  answer is neither \<open>y\<close> nor \<open>Y\<close>, the controller shows the response, asks, prints
  \<open>Message not sent.\<close> and returns; it hands no command to the shell.
\<close>

theorem declined_confirmation:
  assumes "wants_to_confirm self"
    and "get_response E self = Inr response"
    and "input_line E = Inr answer"
    and "answer \<noteq> ''y''" and "answer \<noteq> ''Y''"
  shows "execute E self =
           [Print (''********\<newline>Message: '' @ response @ ''\<newline>********''),
            Input ''Send message? (y/n): '',
            Print ''Message not sent.'']
         \<and> \<not> list_ex is_dispatch (execute E self)"
  using assms by (simp add: execute_def lower_y)

theorem declined_confirmation_witness:
  "execute (scenario_env None)
     (scenario_object (scenario_template (JList [''Rewrite:'']) (JList [''Done.'']) ''sweet''))
     = [Print ''********\<newline>Message: Hello dear\<newline>********'',
        Input ''Send message? (y/n): '',
        Print ''Message not sent.'']"
proof -
  let ?E = "scenario_env None"
  let ?self = "scenario_object
                 (scenario_template (JList [''Rewrite:'']) (JList [''Done.'']) ''sweet'')"
  have a: "wants_to_confirm ?self" by (simp add: scenario_object_def)
  have b: "get_response ?E ?self = Inr ''Hello dear''"
    by (simp add: get_response_def scenario_env_def slice_strip)
  have c: "input_line ?E = Inr ''n''" by (simp add: scenario_env_def)
  from declined_confirmation [OF a b c] show ?thesis by simp
qed

text \<open>The answers \<open>y\<close> and \<open>Y\<close> are the only ones that lead to the dispatch.\<close>

lemma confirmed_dispatches:
  assumes "wants_to_confirm self"
    and "get_response E self = Inr response"
    and "input_line E = Inr answer"
    and "answer = ''y'' \<or> answer = ''Y''"
  shows "list_ex is_dispatch (execute E self)"
  using assms
  by (auto simp: execute_def lower_y send_and_report_def send_message_def Let_def
           split: option.splits)

text \<open>
  The same in src/WingmanGPT, where every object wants the confirmation, whatever the
  flag \<open>--confirm\<close>.
\<close>

lemma declined_confirmation_W:
  assumes "wants_to_confirm_W self"
    and "get_response_W E self = Inr response"
    and "input_line E = Inr answer"
    and "answer \<noteq> ''y''" and "answer \<noteq> ''Y''"
  shows "execute_W E self =
           [Print (''********\<newline>Message: '' @ response @ ''\<newline>********''),
            Input ''Send message? (y/n): '',
            Print ''Message not sent.'']"
  using assms by (simp add: execute_W_def lower_y)

lemma init_W_confirms:
  "init_W E number confirm tok_arg msg_arg mode = Inr self \<Longrightarrow> wants_to_confirm_W self"
  by (auto simp: init_W_def split: sum.splits)

section \<open>The flag --show-modes\<close>

text \<open>
  C6: with \<open>--show-modes\<close>, whatever the number, the message, the token and the other
  options are, \<open>main\<close> prints the heading and one line with the name and the description
  of each mode of \<open>prompts.json\<close>, in the order of the file, and returns; when the file
  does not exist it prints that error instead. In both cases it hands no command to the
  shell.
\<close>

theorem show_modes_only_prints:
  assumes "arg_show_modes a"
  shows "main E a =
           (case prompts_json E of
              None \<Rightarrow>
                [PrintExn ''Error occurred: '' (Exception ''prompts.json does not exist'')]
            | Some cfg \<Rightarrow>
                Print ''AVAILABLE MODES:''
                # map (\<lambda>mode. Print ([CHR 0x09] @ json_name mode @ '': ''
                                      @ json_description mode))
                      (json_modes cfg))
         \<and> \<not> list_ex is_dispatch (main E a)"
proof -
  have m: "main E a =
           (case prompts_json E of
              None \<Rightarrow>
                [PrintExn ''Error occurred: '' (Exception ''prompts.json does not exist'')]
            | Some cfg \<Rightarrow>
                Print ''AVAILABLE MODES:''
                # map (\<lambda>mode. Print ([CHR 0x09] @ json_name mode @ '': ''
                                      @ json_description mode))
                      (json_modes cfg))"
    using assms
    by (simp add: main_def get_prompt_data_def show_modes_def comp_def split: option.splits)
  have "\<not> list_ex is_dispatch (main E a)"
    unfolding m by (auto simp: list_ex_iff split: option.splits)
  with m show ?thesis by simp
qed

text \<open>No number, no message and no token, and no files for them either.\<close>

theorem show_modes_only_prints_witness:
  "main (scenario_env (Some (scenario_config (JList [''Rewrite:'']) (JList [''Done.'']) ''sweet'')))
        \<lparr>arg_number = None, arg_noconfirm = False, arg_token = None, arg_message = None,
         arg_mode = None, arg_show_modes = True\<rparr>
     = [Print ''AVAILABLE MODES:'', Print ([CHR 0x09] @ ''ROMANTIC: sweet'')]"
  using show_modes_only_prints
    [of "\<lparr>arg_number = None, arg_noconfirm = False, arg_token = None, arg_message = None,
          arg_mode = None, arg_show_modes = True\<rparr>"
        "scenario_env
           (Some (scenario_config (JList [''Rewrite:'']) (JList [''Done.'']) ''sweet''))"]
  by (simp add: scenario_env_def scenario_config_def)

text \<open>
  Without the flag and without a number, nothing is dispatched either, but the number is
  asked for.
\<close>

lemma number_required:
  assumes "\<not> arg_show_modes a" and "arg_number a = None" and "prompts_json E = Some cfg"
  shows "main E a = [Print ''Phone number is required.'']"
  using assms by (simp add: main_def get_prompt_data_def)

end
